theory Spec2Isabelle
  imports
    Complex_Main
    "HOL-Library.Multiset"
    "HOL-Library.Char_ord"
    "HOL-Library.List_Lexorder"
    "HOL-Library.Product_Lexorder"
begin

unbundle bit_operations_syntax

section \<open>blahfeed: a hybrid feed aggregator\<close>

text \<open>
  A shallow embedding of \<^verbatim>\<open>blahfeed.py\<close>. Python \<^verbatim>\<open>str\<close> and \<^verbatim>\<open>bytes\<close> values are
  \<open>string\<close>s holding the UTF-8 bytes of the text: the character class of the cache key
  is pure ASCII, every byte of a multi-byte UTF-8 sequence lies outside it, and UTF-8
  byte order is code point order, so substitution, sorting and encoding agree with what
  Python computes on code points. Clock readings and modification times are \<open>real\<close>
  numbers (Python floats, idealised). Every \<^verbatim>\<open>raise\<close> is an \<open>Inl\<close> value.
\<close>

subsection \<open>Exceptions\<close>

datatype error =
    ClientError \<comment> \<open>aiohttp: the request could not be carried out\<close>
  | ClientResponseError nat \<comment> \<open>\<^verbatim>\<open>raise_for_status\<close> on the given status\<close>
  | OSError \<comment> \<open>\<^verbatim>\<open>open\<close> failed\<close>
  | UnicodeDecodeError \<comment> \<open>\<^verbatim>\<open>content.decode()\<close> failed\<close>
  | TypeError \<comment> \<open>\<^verbatim>\<open><\<close> applied to a sort key that is \<^verbatim>\<open>None\<close>\<close>
  | KeyError string \<comment> \<open>\<^verbatim>\<open>entry[k]\<close> for a missing key\<close>

subsection \<open>The cache file name: \<^verbatim>\<open>re.sub("[^a-z0-9-]+", "-", url)\<close>\<close>

text \<open>The characters of the class \<^verbatim>\<open>[a-z0-9-]\<close>; the pattern is compiled without flags.\<close>

definition in_class :: "char \<Rightarrow> bool" where
  "in_class c \<longleftrightarrow>
     (CHR ''a'' \<le> c \<and> c \<le> CHR ''z'') \<or> (CHR ''0'' \<le> c \<and> c \<le> CHR ''9'') \<or> c = CHR ''-''"

text \<open>
  The scan of \<^verbatim>\<open>re.sub\<close>, left to right. The greedy \<^verbatim>\<open>+\<close> takes a maximal run of
  characters outside the class; the flag says that the scan is inside such a run, whose
  replacement has been emitted already.
\<close>

fun re_sub_scan :: "bool \<Rightarrow> string \<Rightarrow> string" where
  "re_sub_scan in_run [] = []"
| "re_sub_scan in_run (c # cs) =
     (if in_class c then c # re_sub_scan False cs
      else if in_run then re_sub_scan True cs
      else CHR ''-'' # re_sub_scan True cs)"

definition re_sub :: "string \<Rightarrow> string" where
  "re_sub url = re_sub_scan False url"

subsection \<open>The cache directory\<close>

text \<open>
  \<^verbatim>\<open>CACHE_ROOT\<close> is a directory of named nodes; a cache path \<^verbatim>\<open>CACHE_ROOT / name\<close> is
  modelled by the name. A regular file has a modification time, contents and the
  permissions that decide whether \<^verbatim>\<open>open(p, "rb")\<close> and \<^verbatim>\<open>open(p, "wb")\<close> succeed;
  \<open>may_create\<close> says whether a new file can be created in the directory. \<open>quota\<close> is
  the number of bytes a file can take before writing to it fails (disk full, file size
  limit), \<open>None\<close> when there is no such bound.
\<close>

record cache_file =
  st_mtime :: real
  data :: string
  readable :: bool
  writable :: bool

datatype node = RegularFile cache_file | Directory

record cache_dir =
  nodes :: "string \<rightharpoonup> node"
  may_create :: bool
  quota :: "nat option"

text \<open>\<^verbatim>\<open>with open(p, "rb") as f: content = f.read()\<close>\<close>

definition read_bytes :: "cache_dir \<Rightarrow> string \<Rightarrow> error + string" where
  "read_bytes d p =
     (case nodes d p of
        Some (RegularFile f) \<Rightarrow> if readable f then Inr (data f) else Inl OSError
      | Some Directory \<Rightarrow> Inl OSError
      | None \<Rightarrow> Inl OSError)"

text \<open>
  \<^verbatim>\<open>open(p, "wb")\<close> at clock reading \<open>t\<close>: an existing file is truncated, a missing one
  is created empty. When the call raises, the directory is as before.
\<close>

definition open_wb :: "real \<Rightarrow> cache_dir \<Rightarrow> string \<Rightarrow> error + cache_dir" where
  "open_wb t d p =
     (case nodes d p of
        Some (RegularFile f) \<Rightarrow>
          if writable f
          then Inr (d\<lparr>nodes := (nodes d)(p \<mapsto> RegularFile (f\<lparr>st_mtime := t, data := []\<rparr>))\<rparr>)
          else Inl OSError
      | Some Directory \<Rightarrow> Inl OSError
      | None \<Rightarrow>
          if may_create d
          then Inr (d\<lparr>nodes := (nodes d)(p \<mapsto> RegularFile
                  \<lparr>st_mtime = t, data = [], readable = True, writable = True\<rparr>)\<rparr>)
          else Inl OSError)"

text \<open>The bytes that reach the opened file \<open>p\<close>.\<close>

definition store :: "cache_dir \<Rightarrow> string \<Rightarrow> string \<Rightarrow> cache_dir" where
  "store d p bytes =
     (case nodes d p of
        Some (RegularFile f) \<Rightarrow> d\<lparr>nodes := (nodes d)(p \<mapsto> RegularFile (f\<lparr>data := bytes\<rparr>))\<rparr>
      | Some Directory \<Rightarrow> d
      | None \<Rightarrow> d)"

text \<open>
  \<^verbatim>\<open>with open(p, "wb") as f: f.write(content)\<close>, at clock reading \<open>t\<close>: the directory it
  leaves, and the exception if one is raised. The file is opened first; a write that
  fails after that leaves the file with the part of the content that fitted.
\<close>

definition write_bytes :: "real \<Rightarrow> cache_dir \<Rightarrow> string \<Rightarrow> string \<Rightarrow> cache_dir \<times> error option" where
  "write_bytes t d p content =
     (case open_wb t d p of
        Inl e \<Rightarrow> (d, Some e)
      | Inr d' \<Rightarrow>
          (case quota d of
             None \<Rightarrow> (store d' p content, None)
           | Some n \<Rightarrow>
               if length content \<le> n then (store d' p content, None)
               else (store d' p (take n content), Some OSError)))"

subsection \<open>The world outside the program\<close>

text \<open>
  What \<^verbatim>\<open>sess.get(url)\<close> followed by \<^verbatim>\<open>resp.content.read()\<close> meets: no response at all,
  or a response with a status and a body.
\<close>

datatype http_reply = Unreachable | Response nat string

text \<open>
  A parsed entry, as the program reads it: each field is what \<^verbatim>\<open>entry.get(key)\<close>
  returns, \<open>None\<close> for a missing key. The parsed dates are \<^verbatim>\<open>time.struct_time\<close> values,
  tuples of nine integers, compared lexicographically.
\<close>

type_synonym struct_time = "int \<times> int \<times> int \<times> int \<times> int \<times> int \<times> int \<times> int \<times> int"

record entry =
  title :: "string option"
  guid :: "string option"
  link :: "string option"
  published :: "string option"
  updated :: "string option"
  published_parsed :: "struct_time option"
  updated_parsed :: "struct_time option"

record feed =
  entries :: "entry list"

text \<open>
  The clock, the cache directory, the network, and the parser: \<open>feedparser w content\<close> is
  \<^verbatim>\<open>feedparser.parse(content.decode())\<close>, \<open>Inl\<close> when the decoding raises.
\<close>

record world =
  now :: real
  disk :: cache_dir
  http :: "string \<Rightarrow> http_reply"
  feedparser :: "string \<Rightarrow> error + feed"

subsection \<open>\<^verbatim>\<open>get_file_age\<close>\<close>

definition get_file_age :: "world \<Rightarrow> string \<Rightarrow> real option" where
  "get_file_age w p =
     (case nodes (disk w) p of
        Some (RegularFile f) \<Rightarrow> Some (now w - st_mtime f)
      | Some Directory \<Rightarrow> None
      | None \<Rightarrow> None)"

subsection \<open>\<^verbatim>\<open>parse_feed\<close>\<close>

text \<open>
  What one call does: the URLs it called \<^verbatim>\<open>sess.get\<close> on, the cache directory it
  leaves, and the value it returns or the exception it raises.
\<close>

record 'a outcome =
  requested :: "string list"
  disk_after :: cache_dir
  returned :: "error + 'a"

text \<open>The first branch (lines 32 to 36): request, status check, read, cache write.\<close>

definition live_fetch :: "world \<Rightarrow> string \<Rightarrow> string \<Rightarrow> string outcome" where
  "live_fetch w url cache_path =
     (case http w url of
        Unreachable \<Rightarrow>
          \<lparr>requested = [url], disk_after = disk w, returned = Inl ClientError\<rparr>
      | Response status content \<Rightarrow>
          if 400 \<le> status
          then \<lparr>requested = [url], disk_after = disk w,
                returned = Inl (ClientResponseError status)\<rparr>
          else (case write_bytes (now w) (disk w) cache_path content of
                  (d, Some e) \<Rightarrow> \<lparr>requested = [url], disk_after = d, returned = Inl e\<rparr>
                | (d, None) \<Rightarrow> \<lparr>requested = [url], disk_after = d, returned = Inr content\<rparr>))"

text \<open>The test of line 31: \<^verbatim>\<open>cache_age is None or cache_age > max_age\<close>.\<close>

definition stale :: "real option \<Rightarrow> int \<Rightarrow> bool" where
  "stale cache_age max_age =
     (case cache_age of None \<Rightarrow> True | Some a \<Rightarrow> a > real_of_int max_age)"

text \<open>Lines 29 to 39, which compute \<^verbatim>\<open>content\<close>.\<close>

definition fetch_content :: "world \<Rightarrow> string \<Rightarrow> int \<Rightarrow> string outcome" where
  "fetch_content w url max_age =
     (let cache_path = re_sub url;
          cache_age = get_file_age w cache_path
      in if stale cache_age max_age
         then live_fetch w url cache_path
         else \<lparr>requested = [], disk_after = disk w,
               returned = read_bytes (disk w) cache_path\<rparr>)"

definition parse_feed :: "world \<Rightarrow> string \<Rightarrow> int \<Rightarrow> feed outcome" where
  "parse_feed w url max_age =
     (let r = fetch_content w url max_age
      in \<lparr>requested = requested r, disk_after = disk_after r,
          returned = (case returned r of Inl e \<Rightarrow> Inl e | Inr content \<Rightarrow> feedparser w content)\<rparr>)"

subsection \<open>SHA-256 (\<^verbatim>\<open>hashlib.sha256\<close>)\<close>

text \<open>
  The hash function of FIPS 180-4, on 32-bit words kept as natural numbers below
  \<open>2 ^ 32\<close> with the wrap-around of addition written out. The complement of a word
  is its exclusive or with \<open>2 ^ 32 - 1\<close>.
\<close>

definition add32 :: "nat \<Rightarrow> nat \<Rightarrow> nat" where
  "add32 x y = (x + y) mod 4294967296"

definition rotr :: "nat \<Rightarrow> nat \<Rightarrow> nat" where
  "rotr n x = x div 2 ^ n + (x mod 2 ^ n) * 2 ^ (32 - n)"

definition shr :: "nat \<Rightarrow> nat \<Rightarrow> nat" where
  "shr n x = x div 2 ^ n"

definition Ch :: "nat \<Rightarrow> nat \<Rightarrow> nat \<Rightarrow> nat" where
  "Ch e f g = (e AND f) XOR ((e XOR 4294967295) AND g)"

definition Maj :: "nat \<Rightarrow> nat \<Rightarrow> nat \<Rightarrow> nat" where
  "Maj a b c = (a AND b) XOR (a AND c) XOR (b AND c)"

definition Sigma0 :: "nat \<Rightarrow> nat" where
  "Sigma0 x = rotr 2 x XOR rotr 13 x XOR rotr 22 x"

definition Sigma1 :: "nat \<Rightarrow> nat" where
  "Sigma1 x = rotr 6 x XOR rotr 11 x XOR rotr 25 x"

definition sigma0 :: "nat \<Rightarrow> nat" where
  "sigma0 x = rotr 7 x XOR rotr 18 x XOR shr 3 x"

definition sigma1 :: "nat \<Rightarrow> nat" where
  "sigma1 x = rotr 17 x XOR rotr 19 x XOR shr 10 x"

definition K256 :: "nat list" where
  "K256 = [
    0x428A2F98, 0x71374491, 0xB5C0FBCF, 0xE9B5DBA5,
    0x3956C25B, 0x59F111F1, 0x923F82A4, 0xAB1C5ED5,
    0xD807AA98, 0x12835B01, 0x243185BE, 0x550C7DC3,
    0x72BE5D74, 0x80DEB1FE, 0x9BDC06A7, 0xC19BF174,
    0xE49B69C1, 0xEFBE4786, 0x0FC19DC6, 0x240CA1CC,
    0x2DE92C6F, 0x4A7484AA, 0x5CB0A9DC, 0x76F988DA,
    0x983E5152, 0xA831C66D, 0xB00327C8, 0xBF597FC7,
    0xC6E00BF3, 0xD5A79147, 0x06CA6351, 0x14292967,
    0x27B70A85, 0x2E1B2138, 0x4D2C6DFC, 0x53380D13,
    0x650A7354, 0x766A0ABB, 0x81C2C92E, 0x92722C85,
    0xA2BFE8A1, 0xA81A664B, 0xC24B8B70, 0xC76C51A3,
    0xD192E819, 0xD6990624, 0xF40E3585, 0x106AA070,
    0x19A4C116, 0x1E376C08, 0x2748774C, 0x34B0BCB5,
    0x391C0CB3, 0x4ED8AA4A, 0x5B9CCA4F, 0x682E6FF3,
    0x748F82EE, 0x78A5636F, 0x84C87814, 0x8CC70208,
    0x90BEFFFA, 0xA4506CEB, 0xBEF9A3F7, 0xC67178F2
  ]"

definition H256 :: "nat list" where
  "H256 = [
    0x6A09E667, 0xBB67AE85, 0x3C6EF372, 0xA54FF53A,
    0x510E527F, 0x9B05688C, 0x1F83D9AB, 0x5BE0CD19
  ]"

text \<open>The message schedule: word \<open>t\<close> from the words before it, for \<open>t\<close> from 16 to 63.\<close>

definition schedule_step :: "nat list \<Rightarrow> nat \<Rightarrow> nat list" where
  "schedule_step w t =
     w @ [add32 (add32 (add32 (sigma1 (w ! (t - 2))) (w ! (t - 7))) (sigma0 (w ! (t - 15))))
            (w ! (t - 16))]"

definition schedule :: "nat list \<Rightarrow> nat list" where
  "schedule m = foldl schedule_step m [16..<64]"

fun round256 :: "nat list \<Rightarrow> nat \<times> nat \<Rightarrow> nat list" where
  "round256 [a, b, c, d, e, f, g, h] (k, w) =
     (let t1 = add32 (add32 (add32 (add32 h (Sigma1 e)) (Ch e f g)) k) w;
          t2 = add32 (Sigma0 a) (Maj a b c)
      in [add32 t1 t2, a, b, c, add32 d t1, e, f, g])"
| "round256 v _ = v"

definition compress :: "nat list \<Rightarrow> nat list \<Rightarrow> nat list" where
  "compress hs m = map2 add32 hs (foldl round256 hs (zip K256 (schedule m)))"

text \<open>Bytes to big-endian words, and the blocks of sixteen words.\<close>

fun be_words :: "nat list \<Rightarrow> nat list" where
  "be_words (a # b # c # d # bs) = (((a * 256 + b) * 256 + c) * 256 + d) # be_words bs"
| "be_words _ = []"

fun sha256_blocks :: "nat list \<Rightarrow> nat list \<Rightarrow> nat list" where
  "sha256_blocks hs (w0 # w1 # w2 # w3 # w4 # w5 # w6 # w7 # w8 # w9 # w10 # w11 # w12
       # w13 # w14 # w15 # ws) =
     sha256_blocks
       (compress hs [w0, w1, w2, w3, w4, w5, w6, w7, w8, w9, w10, w11, w12, w13, w14, w15]) ws"
| "sha256_blocks hs _ = hs"

text \<open>Padding: a one bit, zeros, and the length in bits as a 64-bit big-endian number.\<close>

definition pad :: "nat list \<Rightarrow> nat list" where
  "pad bs = (let l = length bs in
     bs @ [128] @ replicate ((119 - l mod 64) mod 64) 0
        @ map (\<lambda>i. (8 * l) div 256 ^ i mod 256) [7, 6, 5, 4, 3, 2, 1, 0])"

definition sha256 :: "string \<Rightarrow> nat list" where
  "sha256 s = sha256_blocks H256 (be_words (pad (map of_char s)))"

definition hex_digit :: "nat \<Rightarrow> char" where
  "hex_digit n = ''0123456789abcdef'' ! n"

definition hex_word :: "nat \<Rightarrow> string" where
  "hex_word w = map (\<lambda>i. hex_digit (w div 16 ^ i mod 16)) [7, 6, 5, 4, 3, 2, 1, 0]"

definition hexdigest :: "nat list \<Rightarrow> string" where
  "hexdigest ws = concat (map hex_word ws)"

subsection \<open>The feed identity (lines 48 and 61)\<close>

text \<open>\<^verbatim>\<open>sep.join(xs)\<close>\<close>

fun join :: "string \<Rightarrow> string list \<Rightarrow> string" where
  "join sep [] = []"
| "join sep [x] = x"
| "join sep (x # y # ys) = x @ sep @ join sep (y # ys)"

text \<open>
  \<^verbatim>\<open>hashlib.sha256("\n".join(sorted(feed_urls)).encode()).hexdigest()\<close>. Sorting strings
  has one result, the sorted rearrangement, which \<open>sort\<close> computes.
\<close>

definition digest :: "string list \<Rightarrow> string" where
  "digest feed_urls = hexdigest (sha256 (join [CHR 0x0A] (sort feed_urls)))"

text \<open>\<^verbatim>\<open>f"feed-{digest}"\<close>\<close>

definition feed_id :: "string list \<Rightarrow> string" where
  "feed_id feed_urls = ''feed-'' @ digest feed_urls"

subsection \<open>\<^verbatim>\<open>asyncio.gather\<close>\<close>

text \<open>
  Every \<^verbatim>\<open>parse_feed\<close> coroutine runs up to its first suspension before any other
  continues: the age test and a cached read come before the first \<^verbatim>\<open>await\<close>, a cache
  write after one. So each call decides on the cache directory as it was at the start,
  and the calls are modelled on that same world. \<open>gather\<close> then returns all results, or
  raises if a call raised; of several exceptions the model reports the first in list
  order, where the program reports the first in time.
\<close>

fun gather :: "(error + 'a) list \<Rightarrow> error + 'a list" where
  "gather [] = Inr []"
| "gather (r # rs) =
     (case r of
        Inl e \<Rightarrow> Inl e
      | Inr v \<Rightarrow> (case gather rs of Inl e \<Rightarrow> Inl e | Inr vs \<Rightarrow> Inr (v # vs)))"

subsection \<open>\<^verbatim>\<open>sorted(..., key=..., reverse=True)\<close>\<close>

text \<open>
  The key of line 56: \<^verbatim>\<open>item.get("updated_parsed") or item.get("published_parsed")\<close>.
  A \<^verbatim>\<open>struct_time\<close> is never false, so the second operand is taken exactly when the
  first is \<^verbatim>\<open>None\<close>.
\<close>

definition sort_key :: "entry \<Rightarrow> struct_time option" where
  "sort_key item =
     (case updated_parsed item of Some t \<Rightarrow> Some t | None \<Rightarrow> published_parsed item)"

text \<open>Python's \<^verbatim>\<open><\<close> on two keys: a \<^verbatim>\<open>TypeError\<close> as soon as one of them is \<^verbatim>\<open>None\<close>.\<close>

fun py_lt :: "'k::linorder option \<Rightarrow> 'k option \<Rightarrow> error + bool" where
  "py_lt (Some a) (Some b) = Inr (a < b)"
| "py_lt _ _ = Inl TypeError"

text \<open>
  \<^verbatim>\<open>sorted\<close> is stable, also with \<^verbatim>\<open>reverse=True\<close>, and a stable sort has one result;
  the model computes it by insertion, each element going in front of the first one whose
  key is not greater. A list of fewer than two elements is returned without any
  comparison, as in Python; in a longer one every element is compared at least once.
\<close>

fun insort_reverse :: "('a \<Rightarrow> 'k::linorder option) \<Rightarrow> 'a \<Rightarrow> 'a list \<Rightarrow> error + 'a list" where
  "insort_reverse key x [] = Inr [x]"
| "insort_reverse key x (y # ys) =
     (case py_lt (key x) (key y) of
        Inl e \<Rightarrow> Inl e
      | Inr b \<Rightarrow>
          if b then (case insort_reverse key x ys of Inl e \<Rightarrow> Inl e | Inr zs \<Rightarrow> Inr (y # zs))
          else Inr (x # y # ys))"

fun sorted_reverse :: "('a \<Rightarrow> 'k::linorder option) \<Rightarrow> 'a list \<Rightarrow> error + 'a list" where
  "sorted_reverse key [] = Inr []"
| "sorted_reverse key (x # xs) =
     (case sorted_reverse key xs of Inl e \<Rightarrow> Inl e | Inr ys \<Rightarrow> insort_reverse key x ys)"

subsection \<open>The feed generator\<close>

text \<open>
  The state of a \<^verbatim>\<open>FeedGenerator\<close>: the title, the id, and its list of items, in the
  order in which \<^verbatim>\<open>fg.atom_str\<close> writes them out. \<^verbatim>\<open>fg.add_item()\<close> puts the new item at
  the front of that list (the library's default, \<^verbatim>\<open>order='prepend'\<close>). The XML text that
  \<^verbatim>\<open>fg.atom_str\<close> makes of the state is the library's; the model returns the state where
  the program returns its serialisation.
\<close>

record feed_entry =
  fe_title :: string
  fe_guid :: string
  fe_link :: string
  fe_published :: "string option"
  fe_updated :: "string option"

record feed_generator =
  fg_title :: string
  fg_id :: string
  fg_items :: "feed_entry list"

text \<open>
  The item that lines 64 to 68 fill in from an entry: \<^verbatim>\<open>entry[k]\<close> raises for a missing
  key, \<^verbatim>\<open>entry.get(k)\<close> gives \<^verbatim>\<open>None\<close>.
\<close>

definition add_item :: "entry \<Rightarrow> error + feed_entry" where
  "add_item e =
     (case title e of
        None \<Rightarrow> Inl (KeyError ''title'')
      | Some t \<Rightarrow>
          (case guid e of
             None \<Rightarrow> Inl (KeyError ''guid'')
           | Some g \<Rightarrow>
               (case link e of
                  None \<Rightarrow> Inl (KeyError ''link'')
                | Some l \<Rightarrow>
                    Inr \<lparr>fe_title = t, fe_guid = g, fe_link = l,
                         fe_published = published e, fe_updated = updated e\<rparr>)))"

text \<open>The loop of lines 62 to 68 on the generator \<open>fg\<close>.\<close>

fun add_items :: "feed_generator \<Rightarrow> entry list \<Rightarrow> error + feed_generator" where
  "add_items fg [] = Inr fg"
| "add_items fg (e # es) =
     (case add_item e of
        Inl err \<Rightarrow> Inl err
      | Inr i \<Rightarrow> add_items (fg\<lparr>fg_items := i # fg_items fg\<rparr>) es)"

subsection \<open>\<^verbatim>\<open>generate_hybrid_feed\<close>\<close>

text \<open>A run: the URLs requested from the network, and the result.\<close>

record aggregate =
  fetched :: "string list"
  result :: "error + feed_generator"

definition generate_hybrid_feed :: "world \<Rightarrow> string list \<Rightarrow> int \<Rightarrow> aggregate" where
  "generate_hybrid_feed w feed_urls max_age =
     (let runs = map (\<lambda>url. parse_feed w url max_age) feed_urls
      in \<lparr>fetched = concat (map requested runs),
          result =
            (case gather (map returned runs) of
               Inl e \<Rightarrow> Inl e
             | Inr feeds \<Rightarrow>
                 (case sorted_reverse sort_key (concat (map entries feeds)) of
                    Inl e \<Rightarrow> Inl e
                  | Inr sorted_entries \<Rightarrow>
                      add_items
                        \<lparr>fg_title = ''Hybrid Feed'', fg_id = feed_id feed_urls, fg_items = []\<rparr>
                        sorted_entries))\<rparr>)"

subsection \<open>Example worlds\<close>

text \<open>
  Concrete worlds on which the theorems below are exercised. The URL
  \<^verbatim>\<open>http://a/feed\<close> has the cache file name \<^verbatim>\<open>http-a-feed\<close>.
\<close>

text \<open>A readable cache file written 100 seconds ago; the network is down.\<close>

definition world_fresh :: world where
  "world_fresh =
     \<lparr>now = 1000,
      disk = \<lparr>nodes = [''http-a-feed'' \<mapsto> RegularFile
                 \<lparr>st_mtime = 900, data = ''cached'', readable = True, writable = True\<rparr>],
              may_create = True, quota = None\<rparr>,
      http = (\<lambda>url. Unreachable),
      feedparser = (\<lambda>content. Inr \<lparr>entries = []\<rparr>)\<rparr>"

text \<open>The same cache file, without the permission to read it.\<close>

definition world_unreadable :: world where
  "world_unreadable =
     \<lparr>now = 1000,
      disk = \<lparr>nodes = [''http-a-feed'' \<mapsto> RegularFile
                 \<lparr>st_mtime = 900, data = ''cached'', readable = False, writable = True\<rparr>],
              may_create = True, quota = None\<rparr>,
      http = (\<lambda>url. Response 200 ''fresh''),
      feedparser = (\<lambda>content. Inr \<lparr>entries = []\<rparr>)\<rparr>"

text \<open>A cache file 9100 seconds old that cannot be written; the server answers 200.\<close>

definition world_readonly :: world where
  "world_readonly =
     \<lparr>now = 10000,
      disk = \<lparr>nodes = [''http-a-feed'' \<mapsto> RegularFile
                 \<lparr>st_mtime = 900, data = ''cached'', readable = True, writable = False\<rparr>],
              may_create = True, quota = None\<rparr>,
      http = (\<lambda>url. Response 200 ''fresh''),
      feedparser = (\<lambda>content. Inr \<lparr>entries = []\<rparr>)\<rparr>"

text \<open>
  A cache file whose modification time lies a minute after the current clock reading, as
  after the clock was set back.
\<close>

definition world_future_mtime :: world where
  "world_future_mtime =
     \<lparr>now = 1000,
      disk = \<lparr>nodes = [''http-a-feed'' \<mapsto> RegularFile
                 \<lparr>st_mtime = 1060, data = ''cached'', readable = True, writable = True\<rparr>],
              may_create = True, quota = None\<rparr>,
      http = (\<lambda>url. Response 200 ''fresh''),
      feedparser = (\<lambda>content. Inr \<lparr>entries = []\<rparr>)\<rparr>"

text \<open>
  Entries: one updated on 2 January 2024, two published on 3 January 2024, and one with
  no date at all.
\<close>

definition entry_a1 :: entry where
  "entry_a1 =
     \<lparr>title = Some ''A one'', guid = Some ''a1'', link = Some ''http://a/1'',
      published = None, updated = Some ''2024-01-02T00:00:00Z'',
      published_parsed = None, updated_parsed = Some (2024, 1, 2, 0, 0, 0, 1, 2, 0)\<rparr>"

definition entry_a2 :: entry where
  "entry_a2 =
     \<lparr>title = Some ''A two'', guid = Some ''a2'', link = Some ''http://a/2'',
      published = Some ''2024-01-03T00:00:00Z'', updated = None,
      published_parsed = Some (2024, 1, 3, 0, 0, 0, 2, 3, 0), updated_parsed = None\<rparr>"

definition entry_b1 :: entry where
  "entry_b1 =
     \<lparr>title = Some ''B one'', guid = Some ''b1'', link = Some ''http://b/1'',
      published = Some ''2024-01-03T00:00:00Z'', updated = None,
      published_parsed = Some (2024, 1, 3, 0, 0, 0, 2, 3, 0), updated_parsed = None\<rparr>"

definition entry_undated :: entry where
  "entry_undated =
     \<lparr>title = Some ''Undated'', guid = Some ''u1'', link = Some ''http://a/u'',
      published = None, updated = None,
      published_parsed = None, updated_parsed = None\<rparr>"

text \<open>Worlds with an empty, writable cache directory, for whole runs.\<close>

definition empty_cache :: cache_dir where
  "empty_cache = \<lparr>nodes = Map.empty, may_create = True, quota = None\<rparr>"

text \<open>Two feeds: the first holds \<open>entry_a1\<close> and \<open>entry_a2\<close>, the second \<open>entry_b1\<close>.\<close>

definition world_two_feeds :: world where
  "world_two_feeds =
     \<lparr>now = 1000, disk = empty_cache,
      http = (\<lambda>url. if url = ''http://a/feed'' then Response 200 ''A'' else Response 200 ''B''),
      feedparser = (\<lambda>content. if content = ''A'' then Inr \<lparr>entries = [entry_a1, entry_a2]\<rparr>
                               else Inr \<lparr>entries = [entry_b1]\<rparr>)\<rparr>"

text \<open>An empty cache directory in which a file takes no more than two bytes.\<close>

definition world_disk_full :: world where
  "world_disk_full =
     \<lparr>now = 1000,
      disk = \<lparr>nodes = Map.empty, may_create = True, quota = Some 2\<rparr>,
      http = (\<lambda>url. Response 200 ''fresh''),
      feedparser = (\<lambda>content. Inr \<lparr>entries = []\<rparr>)\<rparr>"

text \<open>A feed whose only entry has no date.\<close>

definition world_undated_only :: world where
  "world_undated_only =
     \<lparr>now = 1000, disk = empty_cache,
      http = (\<lambda>url. Response 200 ''U''),
      feedparser = (\<lambda>content. Inr \<lparr>entries = [entry_undated]\<rparr>)\<rparr>"

text \<open>A feed with a dated and an undated entry.\<close>

definition world_undated_mixed :: world where
  "world_undated_mixed =
     \<lparr>now = 1000, disk = empty_cache,
      http = (\<lambda>url. Response 200 ''U''),
      feedparser = (\<lambda>content. Inr \<lparr>entries = [entry_a1, entry_undated]\<rparr>)\<rparr>"

text \<open>The second of three URLs is answered with status 404.\<close>

definition world_one_failing :: world where
  "world_one_failing =
     \<lparr>now = 1000, disk = empty_cache,
      http = (\<lambda>url. if url = ''http://b/feed'' then Response 404 [] else Response 200 ''A''),
      feedparser = (\<lambda>content. Inr \<lparr>entries = [entry_a1]\<rparr>)\<rparr>"

section \<open>Properties\<close>

subsection \<open>The cache file name\<close>

lemma re_sub_scan_kept:
  "\<forall>c\<in>set p. in_class c \<Longrightarrow> p \<noteq> [] \<Longrightarrow> re_sub_scan b (p @ xs) = p @ re_sub_scan False xs"
proof (induction p arbitrary: b)
  case Nil
  then show ?case by simp
next
  case (Cons c p)
  then show ?case by (cases "p = []") auto
qed

lemma re_sub_scan_run:
  "\<forall>c\<in>set r. \<not> in_class c \<Longrightarrow> s = [] \<or> in_class (hd s) \<Longrightarrow>
     re_sub_scan True (r @ s) = re_sub_scan False s"
proof (induction r)
  case Nil
  then show ?case by (cases s) auto
next
  case (Cons c r)
  then show ?case by simp
qed

lemma re_sub_scan_all_kept: "\<forall>c\<in>set p. in_class c \<Longrightarrow> re_sub_scan b p = p"
  by (induction p arbitrary: b) auto

lemma upper_not_in_class: "CHR ''A'' \<le> c \<Longrightarrow> c \<le> CHR ''Z'' \<Longrightarrow> \<not> in_class c"
proof -
  assume a: "CHR ''A'' \<le> c" and z: "c \<le> CHR ''Z''"
  have 1: "CHR ''Z'' < CHR ''a''" "CHR ''9'' < CHR ''A''" "CHR ''-'' < CHR ''A''"
    by simp_all
  from a z 1 show ?thesis
    unfolding in_class_def by (metis leD le_less_trans less_le_trans order.strict_trans2)
qed

text \<open>
  Claim C6, as stated, fails: the class is matched case-sensitively, so an upper-case
  letter is replaced like any other character outside the class.
\<close>

theorem cache_key_counterexample: "re_sub ''aBc'' = ''a-c''"
  by (simp add: re_sub_def in_class_def)

text \<open>
  Claim C6, amended. A name made of lower-case letters, digits and hyphens is kept as it
  is; a maximal run of other characters, upper-case letters among them, between such a
  prefix and the rest of the URL is replaced by exactly one hyphen.
\<close>

theorem cache_key_normalisation:
  "((\<forall>c\<in>set p. in_class c) \<longrightarrow> re_sub p = p)
   \<and> ((\<forall>c\<in>set p. in_class c) \<and> r \<noteq> [] \<and> (\<forall>c\<in>set r. \<not> in_class c) \<and>
        (s = [] \<or> in_class (hd s)) \<longrightarrow>
        re_sub (p @ r @ s) = p @ ''-'' @ re_sub s)
   \<and> (CHR ''A'' \<le> c \<and> c \<le> CHR ''Z'' \<longrightarrow> \<not> in_class c)"
proof (intro conjI impI)
  assume "\<forall>c\<in>set p. in_class c"
  then show "re_sub p = p" by (simp add: re_sub_def re_sub_scan_all_kept)
next
  assume h: "(\<forall>c\<in>set p. in_class c) \<and> r \<noteq> [] \<and> (\<forall>c\<in>set r. \<not> in_class c) \<and>
        (s = [] \<or> in_class (hd s))"
  then obtain c r' where r: "r = c # r'" by (cases r) auto
  from h r have run: "re_sub_scan False (r @ s) = CHR ''-'' # re_sub_scan False s"
    using re_sub_scan_run [of r' s] by simp
  show "re_sub (p @ r @ s) = p @ ''-'' @ re_sub s"
  proof (cases "p = []")
    case True
    with run show ?thesis by (simp add: re_sub_def)
  next
    case False
    with h run show ?thesis by (simp add: re_sub_def re_sub_scan_kept)
  qed
next
  assume "CHR ''A'' \<le> c \<and> c \<le> CHR ''Z''"
  then show "\<not> in_class c" by (simp add: upper_not_in_class)
qed

theorem cache_key_normalisation_witness:
  "re_sub ''feed-1'' = ''feed-1'' \<and> re_sub (''http'' @ ''://'' @ ''a'') = ''http'' @ ''-'' @ re_sub ''a''
   \<and> \<not> in_class CHR ''B''"
proof -
  have 1: "\<forall>c\<in>set ''feed-1''. in_class c" by (simp add: in_class_def)
  have 2: "(\<forall>c\<in>set ''http''. in_class c) \<and> ''://'' \<noteq> [] \<and> (\<forall>c\<in>set ''://''. \<not> in_class c) \<and>
        (''a'' = [] \<or> in_class (hd ''a''))" by (simp add: in_class_def)
  have 3: "CHR ''A'' \<le> CHR ''B'' \<and> CHR ''B'' \<le> CHR ''Z''" by simp
  from cache_key_normalisation [of "''feed-1''" "''://''" "''a''" "CHR ''B''"] 1
    cache_key_normalisation [of "''http''" "''://''" "''a''" "CHR ''B''"] 2 3
  show ?thesis by blast
qed

lemma re_sub_feed_urls:
  "re_sub ''http://a/feed'' = ''http-a-feed''"
  "re_sub ''http://b/feed'' = ''http-b-feed''"
  "re_sub ''http://c/feed'' = ''http-c-feed''"
  by (simp_all add: re_sub_def in_class_def)

subsection \<open>The fetch phase of \<^verbatim>\<open>parse_feed\<close>\<close>

lemmas fetch_defs = fetch_content_def live_fetch_def stale_def get_file_age_def
  read_bytes_def write_bytes_def open_wb_def store_def Let_def

text \<open>
  Claim C1. A fetch asks the network exactly when no regular file stands under the cache
  name of the URL, or that file's age exceeds the threshold. Otherwise it asks nothing,
  leaves the cache directory as it was and returns what reading the cache file gives:
  the cached bytes, for a file that can be read.
\<close>

theorem cache_freshness:
  "(requested (fetch_content w url T) = [url] \<longleftrightarrow>
      (\<forall>f. nodes (disk w) (re_sub url) \<noteq> Some (RegularFile f)) \<or>
      (\<exists>f. nodes (disk w) (re_sub url) = Some (RegularFile f) \<and>
           now w - st_mtime f > real_of_int T))
   \<and> (\<forall>f. nodes (disk w) (re_sub url) = Some (RegularFile f) \<and>
           now w - st_mtime f \<le> real_of_int T \<longrightarrow>
          requested (fetch_content w url T) = [] \<and>
          disk_after (fetch_content w url T) = disk w \<and>
          returned (fetch_content w url T) = read_bytes (disk w) (re_sub url) \<and>
          (readable f \<longrightarrow> returned (fetch_content w url T) = Inr (data f)))"
  by (auto simp: fetch_defs
      split: option.splits node.splits http_reply.splits sum.splits prod.splits)

theorem cache_freshness_witness:
  "requested (fetch_content world_fresh ''http://a/feed'' 3600) = [] \<and>
   disk_after (fetch_content world_fresh ''http://a/feed'' 3600) = disk world_fresh \<and>
   returned (fetch_content world_fresh ''http://a/feed'' 3600) = Inr ''cached''"
  using cache_freshness [of world_fresh "''http://a/feed''" 3600]
  by (simp add: world_fresh_def re_sub_feed_urls read_bytes_def)

text \<open>
  Claim C7, as stated, fails: the server answers 200, the cache file cannot be written,
  and the fetch raises instead of returning the fetched bytes.
\<close>

theorem write_failure_counterexample:
  "requested (fetch_content world_readonly ''http://a/feed'' 3600) = [''http://a/feed''] \<and>
   returned (fetch_content world_readonly ''http://a/feed'' 3600) = Inl OSError"
  by (simp add: world_readonly_def re_sub_feed_urls fetch_defs)

text \<open>A write that succeeds leaves the content in the file, stamped with the time.\<close>

lemma write_bytes_done:
  assumes "write_bytes t d p content = (d', None)"
  shows "\<exists>f. nodes d' p = Some (RegularFile f) \<and> data f = content \<and> st_mtime f = t"
  using assms
  by (auto simp: write_bytes_def open_wb_def store_def
      split: option.splits node.splits sum.splits if_splits)

text \<open>
  A write that fails part-way leaves a new, incomplete cache file: here the first two
  bytes of the five fetched.
\<close>

lemma disk_full_run:
  "returned (fetch_content world_disk_full ''http://a/feed'' 3600) = Inl OSError \<and>
   nodes (disk_after (fetch_content world_disk_full ''http://a/feed'' 3600)) ''http-a-feed'' =
     Some (RegularFile \<lparr>st_mtime = 1000, data = ''fr'', readable = True, writable = True\<rparr>)"
  by (simp add: world_disk_full_def re_sub_feed_urls fetch_defs)

text \<open>
  Claim C7, amended. For a live fetch answered with a status below 400: if the cache write
  succeeds, the fetched bytes are returned and the cache file holds them; if the cache
  write fails, the fetch fails with that error and the fetched bytes are not returned.
\<close>

theorem write_failure_propagates:
  assumes "stale (get_file_age w (re_sub url)) T"
    and "http w url = Response status content"
    and "status < 400"
  shows "disk_after (fetch_content w url T) =
           fst (write_bytes (now w) (disk w) (re_sub url) content)
       \<and> (snd (write_bytes (now w) (disk w) (re_sub url) content) = None \<longrightarrow>
            returned (fetch_content w url T) = Inr content \<and>
            (\<exists>f. nodes (disk_after (fetch_content w url T)) (re_sub url) = Some (RegularFile f) \<and>
                 data f = content \<and> st_mtime f = now w))
       \<and> (\<forall>e. snd (write_bytes (now w) (disk w) (re_sub url) content) = Some e \<longrightarrow>
            returned (fetch_content w url T) = Inl e)"
proof -
  obtain d r where wr: "write_bytes (now w) (disk w) (re_sub url) content = (d, r)"
    by (cases "write_bytes (now w) (disk w) (re_sub url) content")
  from assms wr have run: "disk_after (fetch_content w url T) = d"
    "r = None \<longrightarrow> returned (fetch_content w url T) = Inr content"
    "\<forall>e. r = Some e \<longrightarrow> returned (fetch_content w url T) = Inl e"
    by (auto simp: fetch_content_def live_fetch_def Let_def split: option.splits)
  have "r = None \<longrightarrow>
          (\<exists>f. nodes d (re_sub url) = Some (RegularFile f) \<and> data f = content \<and>
               st_mtime f = now w)"
    using wr write_bytes_done by blast
  with run wr show ?thesis by simp
qed

theorem write_failure_propagates_witness:
  "returned (fetch_content world_readonly ''http://a/feed'' 3600) = Inl OSError \<and>
   returned (fetch_content world_disk_full ''http://a/feed'' 3600) = Inl OSError \<and>
   returned (fetch_content world_two_feeds ''http://a/feed'' 3600) = Inr ''A'' \<and>
   (\<exists>f. nodes (disk_after (fetch_content world_two_feeds ''http://a/feed'' 3600))
          (re_sub ''http://a/feed'') = Some (RegularFile f) \<and>
        data f = ''A'' \<and> st_mtime f = now world_two_feeds)"
proof -
  have ro: "stale (get_file_age world_readonly (re_sub ''http://a/feed'')) 3600"
    "http world_readonly ''http://a/feed'' = Response 200 ''fresh''"
    "snd (write_bytes (now world_readonly) (disk world_readonly)
       (re_sub ''http://a/feed'') ''fresh'') = Some OSError"
    by (simp_all add: world_readonly_def re_sub_feed_urls fetch_defs)
  have full: "stale (get_file_age world_disk_full (re_sub ''http://a/feed'')) 3600"
    "http world_disk_full ''http://a/feed'' = Response 200 ''fresh''"
    "snd (write_bytes (now world_disk_full) (disk world_disk_full)
       (re_sub ''http://a/feed'') ''fresh'') = Some OSError"
    by (simp_all add: world_disk_full_def re_sub_feed_urls fetch_defs)
  have ok: "stale (get_file_age world_two_feeds (re_sub ''http://a/feed'')) 3600"
    "http world_two_feeds ''http://a/feed'' = Response 200 ''A''"
    "snd (write_bytes (now world_two_feeds) (disk world_two_feeds)
       (re_sub ''http://a/feed'') ''A'') = None"
    by (simp_all add: world_two_feeds_def empty_cache_def re_sub_feed_urls fetch_defs)
  have lt: "(200::nat) < 400" by simp
  from write_failure_propagates [OF ro(1) ro(2) lt] ro(3)
    write_failure_propagates [OF full(1) full(2) lt] full(3)
    write_failure_propagates [OF ok(1) ok(2) lt] ok(3)
  show ?thesis by blast
qed

text \<open>
  Claim C8, as stated, fails: the cache file is fresh and cannot be read, and the fetch
  raises without asking the network.
\<close>

theorem read_failure_counterexample:
  "requested (fetch_content world_unreadable ''http://a/feed'' 3600) = [] \<and>
   returned (fetch_content world_unreadable ''http://a/feed'' 3600) = Inl OSError"
  by (simp add: world_unreadable_def re_sub_feed_urls fetch_defs)

text \<open>
  Claim C8, amended. When the cache file exists, is not older than the threshold and
  cannot be read, the fetch fails with the I/O error: no request is made and the cache
  directory is unchanged.
\<close>

theorem read_failure_propagates:
  assumes "nodes (disk w) (re_sub url) = Some (RegularFile f)"
    and "now w - st_mtime f \<le> real_of_int T"
    and "\<not> readable f"
  shows "requested (fetch_content w url T) = [] \<and>
         returned (fetch_content w url T) = Inl OSError \<and>
         disk_after (fetch_content w url T) = disk w"
  using assms by (simp add: fetch_defs)

theorem read_failure_propagates_witness:
  "requested (fetch_content world_unreadable ''http://a/feed'' 3600) = [] \<and>
   returned (fetch_content world_unreadable ''http://a/feed'' 3600) = Inl OSError \<and>
   disk_after (fetch_content world_unreadable ''http://a/feed'' 3600) = disk world_unreadable"
proof -
  have 1: "nodes (disk world_unreadable) (re_sub ''http://a/feed'') = Some (RegularFile
     \<lparr>st_mtime = 900, data = ''cached'', readable = False, writable = True\<rparr>)"
    by (simp add: world_unreadable_def re_sub_feed_urls)
  have 2: "now world_unreadable
      - st_mtime \<lparr>st_mtime = 900, data = ''cached'', readable = False, writable = True\<rparr>
      \<le> real_of_int 3600"
    by (simp add: world_unreadable_def)
  from read_failure_propagates [OF 1 2] show ?thesis by simp
qed

text \<open>
  Claim C9, as stated, fails: with max age 0 and a cache file whose modification time is
  not before the current clock reading, the age is not greater than 0 and the cache is
  read.
\<close>

theorem max_age_zero_counterexample:
  "requested (fetch_content world_future_mtime ''http://a/feed'' 0) = [] \<and>
   returned (fetch_content world_future_mtime ''http://a/feed'' 0) = Inr ''cached''"
  by (simp add: world_future_mtime_def re_sub_feed_urls fetch_defs)

text \<open>
  Claim C9, amended. With max age 0 a fetch asks the network exactly when no cache file
  exists or the cache file's modification time lies before the current clock reading.
\<close>

theorem max_age_zero:
  "requested (fetch_content w url 0) =
     (if (\<forall>f. nodes (disk w) (re_sub url) \<noteq> Some (RegularFile f)) \<or>
         (\<exists>f. nodes (disk w) (re_sub url) = Some (RegularFile f) \<and> st_mtime f < now w)
      then [url] else [])"
  by (auto simp: fetch_defs
      split: option.splits node.splits http_reply.splits sum.splits prod.splits)

subsection \<open>The feed identity\<close>

lemmas sha_defs = sha256_def pad_def compress_def schedule_def schedule_step_def
  K256_def H256_def Sigma0_def Sigma1_def sigma0_def sigma1_def Ch_def Maj_def rotr_def shr_def
  add32_def hexdigest_def hex_word_def hex_digit_def Let_def

lemma replicate_numeral: "replicate (numeral k) x = x # replicate (pred_numeral k) x"
  by (simp add: numeral_eq_Suc)

text \<open>The model of SHA-256 on the test vector of the empty message.\<close>

lemma sha256_empty:
  "hexdigest (sha256 '''') = ''e3b0c44298fc1c149afbf4c8996fb92427ae41e4649b934ca495991b7852b855''"
  by (simp add: sha_defs replicate_numeral)

text \<open>The two-block test vector of the standard.\<close>

lemma sha256_two_blocks:
  "hexdigest (sha256 ''abcdbcdecdefdefgefghfghighijhijkijkljklmklmnlmnomnopnopq'') =
     ''248d6a61d20638b8e5c026930c3e6039a33ce45964ff2167f6ecedd419db06c1''"
  by (simp add: sha_defs replicate_numeral)

text \<open>The digests of a URL list naming one URL once, and twice.\<close>

lemma digest_once:
  "digest [''http://a/feed''] = ''d138512ec9842945426047b37dc53be4cc684d06667c4d2e763947bde522c5c9''"
  by (simp add: digest_def sha_defs replicate_numeral)

lemma digest_twice:
  "digest [''http://a/feed'', ''http://a/feed''] = ''716222a571f8debeb0b98a4aaccf3dc9a3f3c89c79801f8c09858f968660a19f''"
  by (simp add: digest_def sha_defs replicate_numeral)

text \<open>
  Claim C3, as stated, fails: a list naming one URL twice denotes the same URL set as the
  list naming it once, and the two feed identities differ. The URLs are sorted, not made
  distinct.
\<close>

theorem feed_identity_counterexample:
  "set [''http://a/feed'', ''http://a/feed''] = set [''http://a/feed''] \<and>
   feed_id [''http://a/feed'', ''http://a/feed''] \<noteq> feed_id [''http://a/feed'']"
  by (simp add: feed_id_def digest_once digest_twice)

text \<open>
  Claim C3, amended. The feed identity is \<^verbatim>\<open>feed-\<close> followed by the SHA-256 hex digest of
  the sorted URL strings, duplicates kept, joined by a newline; two URL lists with the
  same URLs the same number of times, in any order, have the same identity.
\<close>

theorem feed_identity:
  "feed_id feed_urls = ''feed-'' @ hexdigest (sha256 (join [CHR 0x0A] (sort feed_urls)))
   \<and> (mset feed_urls = mset other_urls \<longrightarrow> feed_id feed_urls = feed_id other_urls)"
proof (intro conjI impI)
  show "feed_id feed_urls = ''feed-'' @ hexdigest (sha256 (join [CHR 0x0A] (sort feed_urls)))"
    by (simp add: feed_id_def digest_def)
next
  assume "mset feed_urls = mset other_urls"
  then have "sort feed_urls = sort other_urls"
    by (metis properties_for_sort mset_sort sorted_sort)
  then show "feed_id feed_urls = feed_id other_urls"
    by (simp add: feed_id_def digest_def)
qed

theorem feed_identity_witness:
  "feed_id [''http://b/feed'', ''http://a/feed''] = feed_id [''http://a/feed'', ''http://b/feed'']"
proof -
  have "mset [''http://b/feed'', ''http://a/feed''] = mset [''http://a/feed'', ''http://b/feed'']"
    by simp
  with feed_identity [of "[''http://b/feed'', ''http://a/feed'']" "[''http://a/feed'', ''http://b/feed'']"]
  show ?thesis by blast
qed

subsection \<open>Gathering results\<close>

lemma gather_map_Inr: "gather (map Inr vs) = Inr vs"
  by (induction vs) auto

lemma gather_Inr_D: "gather rs = Inr vs \<Longrightarrow> rs = map Inr vs"
  by (induction rs arbitrary: vs) (auto split: sum.splits)

lemma gather_error: "Inl e \<in> set rs \<Longrightarrow> \<exists>e'. gather rs = Inl e'"
  by (induction rs) (auto split: sum.splits)

subsection \<open>The stable descending sort\<close>

lemma py_lt_Inr: "py_lt a b = Inr c \<longleftrightarrow> (\<exists>s t. a = Some s \<and> b = Some t \<and> c = (s < t))"
  by (cases a; cases b) auto

lemma py_lt_Inl: "py_lt a b = Inl e \<longleftrightarrow> (a = None \<or> b = None) \<and> e = TypeError"
  by (cases a; cases b) auto

lemma insort_reverse_mset:
  "insort_reverse key x ys = Inr zs \<Longrightarrow> mset zs = add_mset x (mset ys)"
  by (induction ys arbitrary: zs) (auto split: sum.splits if_splits)

lemma insort_reverse_set:
  "insort_reverse key x ys = Inr zs \<Longrightarrow> set zs = insert x (set ys)"
  by (drule insort_reverse_mset) (metis set_mset_add_mset_insert set_mset_mset)

lemma insort_reverse_sorted:
  "insort_reverse key x ys = Inr zs \<Longrightarrow>
   sorted_wrt (\<lambda>a b. \<exists>s t. key a = Some s \<and> key b = Some t \<and> t \<le> s) ys \<Longrightarrow>
   sorted_wrt (\<lambda>a b. \<exists>s t. key a = Some s \<and> key b = Some t \<and> t \<le> s) zs"
proof (induction ys arbitrary: zs)
  case Nil
  then show ?case by auto
next
  case (Cons y ys)
  from Cons.prems(1) obtain b where b: "py_lt (key x) (key y) = Inr b"
    by (auto split: sum.splits)
  then obtain s t where st: "key x = Some s" "key y = Some t" "b = (s < t)"
    by (auto simp: py_lt_Inr)
  show ?case
  proof (cases b)
    case True
    with Cons.prems(1) b obtain zs' where zs': "insort_reverse key x ys = Inr zs'" "zs = y # zs'"
      by (auto split: sum.splits)
    from Cons.IH [OF zs'(1)] Cons.prems(2)
    have "sorted_wrt (\<lambda>a b. \<exists>s t. key a = Some s \<and> key b = Some t \<and> t \<le> s) zs'" by simp
    moreover have "\<forall>z\<in>set zs'. \<exists>s' t'. key y = Some s' \<and> key z = Some t' \<and> t' \<le> s'"
      using insort_reverse_set [OF zs'(1)] Cons.prems(2) st True by auto
    ultimately show ?thesis using zs'(2) by simp
  next
    case False
    with Cons.prems(1) b have zs: "zs = x # y # ys" by auto
    have "\<forall>z\<in>set ys. \<exists>s' t'. key x = Some s' \<and> key z = Some t' \<and> t' \<le> s'"
    proof
      fix z assume "z \<in> set ys"
      with Cons.prems(2) obtain t' where "key z = Some t'" "t' \<le> t" using st by auto
      with st False show "\<exists>s' t'. key x = Some s' \<and> key z = Some t' \<and> t' \<le> s'" by auto
    qed
    with Cons.prems(2) st False zs show ?thesis by auto
  qed
qed

lemma insort_reverse_stable:
  "insort_reverse key x ys = Inr zs \<Longrightarrow>
   filter (\<lambda>e. key e = k) zs = filter (\<lambda>e. key e = k) (x # ys)"
proof (induction ys arbitrary: zs)
  case Nil
  then show ?case by auto
next
  case (Cons y ys)
  from Cons.prems obtain b where b: "py_lt (key x) (key y) = Inr b"
    by (auto split: sum.splits)
  then obtain s t where st: "key x = Some s" "key y = Some t" "b = (s < t)"
    by (auto simp: py_lt_Inr)
  show ?case
  proof (cases b)
    case True
    with Cons.prems b obtain zs' where zs': "insort_reverse key x ys = Inr zs'" "zs = y # zs'"
      by (auto split: sum.splits)
    from st True have "key x \<noteq> key y" by auto
    with Cons.IH [OF zs'(1)] zs'(2) show ?thesis by auto
  next
    case False
    with Cons.prems b show ?thesis by auto
  qed
qed

lemma sorted_reverse_props:
  "sorted_reverse key xs = Inr ys \<Longrightarrow>
     mset ys = mset xs \<and>
     sorted_wrt (\<lambda>a b. \<exists>s t. key a = Some s \<and> key b = Some t \<and> t \<le> s) ys \<and>
     (\<forall>k. filter (\<lambda>e. key e = k) ys = filter (\<lambda>e. key e = k) xs)"
proof (induction xs arbitrary: ys)
  case Nil
  then show ?case by simp
next
  case (Cons x xs)
  from Cons.prems obtain ys' where ys': "sorted_reverse key xs = Inr ys'"
    "insort_reverse key x ys' = Inr ys"
    by (auto split: sum.splits)
  from Cons.IH [OF ys'(1)] insort_reverse_mset [OF ys'(2)] insort_reverse_sorted [OF ys'(2)]
    insort_reverse_stable [OF ys'(2)]
  show ?case by simp
qed



text \<open>A missing key among two or more elements raises.\<close>

lemma sorted_wrt_keys_present:
  "sorted_wrt (\<lambda>a b. \<exists>s t. key a = Some s \<and> key b = Some t \<and> t \<le> s) ys \<Longrightarrow>
   2 \<le> length ys \<Longrightarrow> \<forall>y\<in>set ys. key y \<noteq> None"
proof -
  assume srt: "sorted_wrt (\<lambda>a b. \<exists>s t. key a = Some s \<and> key b = Some t \<and> t \<le> s) ys"
    and len: "2 \<le> length ys"
  from len obtain a b rest where ys: "ys = a # b # rest"
    by (cases ys; cases "tl ys") auto
  with srt have "key a \<noteq> None" "\<forall>z\<in>set (b # rest). key z \<noteq> None" by auto
  with ys show ?thesis by auto
qed

lemma sorted_reverse_Inl: "sorted_reverse key xs = Inl e \<Longrightarrow> e = TypeError"
proof (induction xs arbitrary: e)
  case Nil
  then show ?case by simp
next
  case (Cons x xs)
  show ?case
  proof (cases "sorted_reverse key xs")
    case (Inl e')
    with Cons show ?thesis by auto
  next
    case (Inr ys)
    with Cons.prems have "insort_reverse key x ys = Inl e" by simp
    then show ?thesis
      by (induction ys) (auto split: sum.splits if_splits simp: py_lt_Inl)
  qed
qed

lemma sorted_reverse_None:
  assumes "2 \<le> length xs" and "\<exists>x\<in>set xs. key x = None"
  shows "sorted_reverse key xs = Inl TypeError"
proof (cases "sorted_reverse key xs")
  case (Inl e)
  then show ?thesis by (simp add: sorted_reverse_Inl)
next
  case (Inr ys)
  from sorted_reverse_props [OF Inr] have m: "mset ys = mset xs"
    and srt: "sorted_wrt (\<lambda>a b. \<exists>s t. key a = Some s \<and> key b = Some t \<and> t \<le> s) ys"
    by blast+
  from m have "set ys = set xs" "length ys = length xs"
    by (metis set_mset_mset, metis size_mset)
  with sorted_wrt_keys_present [OF srt] assms show ?thesis by auto
qed

subsection \<open>\<^verbatim>\<open>generate_hybrid_feed\<close>\<close>

lemmas run_defs = generate_hybrid_feed_def parse_feed_def fetch_content_def live_fetch_def
  stale_def get_file_age_def read_bytes_def write_bytes_def open_wb_def store_def Let_def
  empty_cache_def sort_key_def add_item_def

lemmas entry_defs = entry_a1_def entry_a2_def entry_b1_def entry_undated_def






lemma two_feeds_run:
  "result (generate_hybrid_feed world_two_feeds [''http://a/feed'', ''http://b/feed''] 3600) =
     Inr \<lparr>fg_title = ''Hybrid Feed'',
          fg_id = feed_id [''http://a/feed'', ''http://b/feed''],
          fg_items =
            [\<lparr>fe_title = ''A one'', fe_guid = ''a1'', fe_link = ''http://a/1'',
              fe_published = None, fe_updated = Some ''2024-01-02T00:00:00Z''\<rparr>,
             \<lparr>fe_title = ''B one'', fe_guid = ''b1'', fe_link = ''http://b/1'',
              fe_published = Some ''2024-01-03T00:00:00Z'', fe_updated = None\<rparr>,
             \<lparr>fe_title = ''A two'', fe_guid = ''a2'', fe_link = ''http://a/2'',
              fe_published = Some ''2024-01-03T00:00:00Z'', fe_updated = None\<rparr>]\<rparr>"
  by (simp add: world_two_feeds_def run_defs entry_defs re_sub_feed_urls)



text \<open>
  Claim C4, as stated, fails: a run whose only entry has neither date sorts a
  one-element list, compares nothing, and hands the entry to the feed generator.
\<close>

theorem missing_timestamp_counterexample:
  "map_sum id fg_items
     (result (generate_hybrid_feed world_undated_only [''http://a/feed''] 3600)) =
   Inr [\<lparr>fe_title = ''Undated'', fe_guid = ''u1'', fe_link = ''http://a/u'',
         fe_published = None, fe_updated = None\<rparr>]"
  by (simp add: world_undated_only_def run_defs entry_defs re_sub_feed_urls)

text \<open>
  Claim C4, amended. When the parsed feeds hold at least two entries in all and some
  entry has neither an updated nor a published date, the aggregation fails with the
  \<^verbatim>\<open>TypeError\<close> of the sort and returns no feed.
\<close>

theorem missing_timestamp_rejection:
  assumes "gather (map (\<lambda>url. returned (parse_feed w url T)) feed_urls) = Inr feeds"
    and "2 \<le> length (concat (map entries feeds))"
    and "\<exists>e\<in>set (concat (map entries feeds)). updated_parsed e = None \<and> published_parsed e = None"
  shows "result (generate_hybrid_feed w feed_urls T) = Inl TypeError"
proof -
  from assms(3) obtain e where "e \<in> set (concat (map entries feeds))"
    "updated_parsed e = None" "published_parsed e = None" by blast
  then have "\<exists>e\<in>set (concat (map entries feeds)). sort_key e = None"
    by (intro bexI [of _ e]) (simp_all add: sort_key_def)
  with assms(2) have "sorted_reverse sort_key (concat (map entries feeds)) = Inl TypeError"
    by (rule sorted_reverse_None)
  with assms(1) show ?thesis
    by (simp add: generate_hybrid_feed_def Let_def comp_def)
qed

theorem missing_timestamp_rejection_witness:
  "result (generate_hybrid_feed world_undated_mixed [''http://a/feed''] 3600) = Inl TypeError"
proof -
  have 1: "gather (map (\<lambda>url. returned (parse_feed world_undated_mixed url 3600)) [''http://a/feed''])
             = Inr [\<lparr>entries = [entry_a1, entry_undated]\<rparr>]"
    by (simp add: world_undated_mixed_def run_defs re_sub_feed_urls)
  have 2: "2 \<le> length (concat (map entries [\<lparr>entries = [entry_a1, entry_undated]\<rparr>]))"
    by simp
  have 3: "\<exists>e\<in>set (concat (map entries [\<lparr>entries = [entry_a1, entry_undated]\<rparr>])).
             updated_parsed e = None \<and> published_parsed e = None"
    by (simp add: entry_defs)
  from missing_timestamp_rejection [OF 1 2 3] show ?thesis .
qed

lemma parse_feed_status_error:
  assumes "stale (get_file_age w (re_sub url)) T"
    and "http w url = Response status body" and "400 \<le> status"
  shows "returned (parse_feed w url T) = Inl (ClientResponseError status)"
  using assms by (simp add: parse_feed_def fetch_content_def live_fetch_def Let_def)

lemma parse_feed_parse_error:
  assumes "returned (fetch_content w url T) = Inr content" and "feedparser w content = Inl e"
  shows "returned (parse_feed w url T) = Inl e"
  using assms by (simp add: parse_feed_def Let_def)

lemma generate_fails:
  assumes "url \<in> set feed_urls" and "returned (parse_feed w url T) = Inl e"
  shows "\<exists>e'. result (generate_hybrid_feed w feed_urls T) = Inl e'"
proof -
  from assms have "Inl e \<in> set (map (\<lambda>url. returned (parse_feed w url T)) feed_urls)"
    by force
  then obtain e' where "gather (map (\<lambda>url. returned (parse_feed w url T)) feed_urls) = Inl e'"
    using gather_error by blast
  then show ?thesis
    by (simp add: generate_hybrid_feed_def Let_def comp_def)
qed

text \<open>
  Claim C5. If for some URL of the list the live fetch is answered with a status that
  \<^verbatim>\<open>raise_for_status\<close> rejects (400 or more), or its content fails to parse, the
  aggregation fails with an error and returns no feed.
\<close>

theorem fail_fast:
  assumes "url \<in> set feed_urls"
    and "(stale (get_file_age w (re_sub url)) T \<and>
           (\<exists>status body. http w url = Response status body \<and> 400 \<le> status))
         \<or> (\<exists>content e. returned (fetch_content w url T) = Inr content \<and>
               feedparser w content = Inl e)"
  shows "\<exists>e. result (generate_hybrid_feed w feed_urls T) = Inl e"
  using assms generate_fails parse_feed_status_error parse_feed_parse_error by blast

theorem fail_fast_witness:
  "\<exists>e. result (generate_hybrid_feed world_one_failing
          [''http://a/feed'', ''http://b/feed'', ''http://c/feed''] 3600) = Inl e"
proof -
  have 1: "''http://b/feed'' \<in> set [''http://a/feed'', ''http://b/feed'', ''http://c/feed'']"
    by simp
  have 2: "stale (get_file_age world_one_failing (re_sub ''http://b/feed'')) 3600 \<and>
           (\<exists>status body. http world_one_failing ''http://b/feed'' = Response status body \<and>
              400 \<le> status)"
    by (simp add: world_one_failing_def run_defs re_sub_feed_urls)
  from fail_fast [OF 1 disjI1 [OF 2]] show ?thesis .
qed

lemma one_failing_run:
  "result (generate_hybrid_feed world_one_failing
     [''http://a/feed'', ''http://b/feed'', ''http://c/feed''] 3600) = Inl (ClientResponseError 404)"
  by (simp add: world_one_failing_def run_defs entry_defs re_sub_feed_urls)

text \<open>
  Claim C10. For the empty URL list the aggregation requests nothing and returns the feed
  with no items, the title \<^verbatim>\<open>Hybrid Feed\<close> and the id \<^verbatim>\<open>feed-\<close> followed by the SHA-256
  hex digest of the empty string.
\<close>

theorem empty_url_list:
  "generate_hybrid_feed w [] T =
     \<lparr>fetched = [],
      result = Inr \<lparr>fg_title = ''Hybrid Feed'',
                   fg_id = ''feed-'' @ hexdigest (sha256 ''''),
                   fg_items = []\<rparr>\<rparr>
   \<and> hexdigest (sha256 '''') =
       ''e3b0c44298fc1c149afbf4c8996fb92427ae41e4649b934ca495991b7852b855''"
  by (simp add: generate_hybrid_feed_def feed_id_def digest_def sha256_empty)

end
